theory Spec2Isabelle
  imports Complex_Main
begin

section \<open>Tensors and the library operations the model calls\<close>

text \<open>
  The model file \<^verbatim>\<open>cortex/built_ins/models/vae.py\<close> computes on batches: a tensor
  whose first axis is the batch. A batch is modelled as the list of its elements, each
  element as the list of its (flattened) entries, so \<^verbatim>\<open>t.size(0)\<close> is the length of the
  outer list. Entries are real numbers: rounding, overflow and underflow of the machine
  floats are outside this model, and a value that is not a real number (a division
  \<open>0 / 0\<close>, a logarithm of a non-positive number) is the outcome \<open>NonFinite\<close>.
  So the statements below say which function of which values the code computes; they
  say nothing of the sign, the finiteness or the exact vanishing of a single-precision
  result. An exception of the source is an \<open>Inl\<close>; after one, the state is not
  observed.
\<close>

type_synonym tensor = "real list list"

datatype error = RuntimeError | AttributeError | NonFinite

text \<open>\<^verbatim>\<open>torch.nn.Linear\<close>: its two sizes, the weight (row \<open>j\<close>, column \<open>i\<close>) and the bias.\<close>

record Linear =
  in_features :: nat
  out_features :: nat
  weight :: "nat \<Rightarrow> nat \<Rightarrow> real"
  bias :: "nat \<Rightarrow> real"

text \<open>
  Applying a linear layer, \<open>y = x W\<^sup>T + b\<close> on every batch element; an element whose
  width is not \<open>in_features\<close> is a size mismatch.
\<close>

definition Linear_forward :: "Linear \<Rightarrow> tensor \<Rightarrow> error + tensor" where
  "Linear_forward L x =
     (if list_all (\<lambda>row. length row = in_features L) x
      then Inr (map (\<lambda>row. map (\<lambda>j. (\<Sum>i\<leftarrow>[0..<in_features L]. row ! i * weight L j i) + bias L j)
                            [0..<out_features L]) x)
      else Inl RuntimeError)"

text \<open>
  \<^verbatim>\<open>F.relu\<close> and the in-place \<^verbatim>\<open>exp_\<close>, both elementwise. The exponential here is
  the real one; the single-precision one is exactly \<open>0.0\<close> from about \<open>-104\<close> downwards
  and infinite from about \<open>88.7\<close> upwards.
\<close>

definition relu :: "tensor \<Rightarrow> tensor" where
  "relu t = map (map (max 0)) t"

definition exp_inplace :: "tensor \<Rightarrow> tensor" where
  "exp_inplace t = map (map exp) t"

text \<open>
  An elementwise operation on two tensors of one shape. Tensors of different shapes are
  a size mismatch; broadcasting is not modelled: the two heads of a network are built
  with the same sizes, and a reconstruction is compared with an input of its own shape.
\<close>

definition elementwise :: "(real \<Rightarrow> real \<Rightarrow> real) \<Rightarrow> tensor \<Rightarrow> tensor \<Rightarrow> error + tensor" where
  "elementwise f a b =
     (if map length a = map length b then Inr (map2 (map2 f) a b) else Inl RuntimeError)"

text \<open>
  \<^verbatim>\<open>std.data.new(std.size()).normal_()\<close>: a fresh tensor of the shape of \<open>t\<close>, filled
  with the draws of the random source; \<open>rng i j\<close> is the draw for entry \<open>j\<close> of batch
  element \<open>i\<close>.
\<close>

definition normal_inplace :: "(nat \<Rightarrow> nat \<Rightarrow> real) \<Rightarrow> tensor \<Rightarrow> tensor" where
  "normal_inplace rng t = map2 (\<lambda>i row. map (rng i) [0..<length row]) [0..<length t] t"

text \<open>
  The constructor \<^verbatim>\<open>nn.Linear(in_features, out_features)\<close>: a layer of these sizes
  whose weight and bias are freshly drawn (\<open>init\<close>). The library refuses a negative
  size; which other sizes it refuses differs between its versions, so that test is the
  parameter \<open>accepts\<close>.
\<close>

definition nn_Linear ::
  "(int \<Rightarrow> int \<Rightarrow> bool) \<Rightarrow> (nat \<Rightarrow> nat \<Rightarrow> real) \<times> (nat \<Rightarrow> real) \<Rightarrow> int \<Rightarrow> int \<Rightarrow> error + Linear" where
  "nn_Linear accepts init n_in n_out =
     (if 0 \<le> n_in \<and> 0 \<le> n_out \<and> accepts n_in n_out
      then Inr \<lparr>in_features = nat n_in, out_features = nat n_out,
                weight = fst init, bias = snd init\<rparr>
      else Inl RuntimeError)"

section \<open>VAENetwork\<close>

text \<open>
  The attributes of the class. \<open>training\<close> is the flag of \<^verbatim>\<open>nn.Module\<close>; an attribute
  that holds \<^verbatim>\<open>None\<close> or does not exist yet is \<open>None\<close>. The encoder and the decoder
  are networks built elsewhere; the decoder also takes the output non-linearity.
\<close>

record 'n VAENetwork =
  encoder :: "tensor \<Rightarrow> error + tensor"
  mu_net :: Linear
  logvar_net :: Linear
  decoder :: "tensor \<Rightarrow> 'n option \<Rightarrow> error + tensor"
  training :: bool
  mu :: "tensor option"
  logvar :: "tensor option"
  std :: "tensor option"
  latent :: "tensor option"

text \<open>
  \<^verbatim>\<open>VAENetwork.__init__\<close>: both heads are built with the sizes \<open>(dim_out, dim_z)\<close>, each
  with its own initial weights. A new module is in training mode.
\<close>

definition VAENetwork_init ::
  "(int \<Rightarrow> int \<Rightarrow> bool) \<Rightarrow> (nat \<Rightarrow> nat \<Rightarrow> real) \<times> (nat \<Rightarrow> real) \<Rightarrow> (nat \<Rightarrow> nat \<Rightarrow> real) \<times> (nat \<Rightarrow> real)
     \<Rightarrow> (tensor \<Rightarrow> error + tensor) \<Rightarrow> (tensor \<Rightarrow> 'n option \<Rightarrow> error + tensor) \<Rightarrow> int \<Rightarrow> int
     \<Rightarrow> error + 'n VAENetwork" where
  "VAENetwork_init accepts init_mu init_logvar encoder' decoder' dim_out dim_z =
     (case nn_Linear accepts init_mu dim_out dim_z of
        Inl e \<Rightarrow> Inl e
      | Inr mu_net' \<Rightarrow>
          (case nn_Linear accepts init_logvar dim_out dim_z of
             Inl e \<Rightarrow> Inl e
           | Inr logvar_net' \<Rightarrow>
               Inr \<lparr>encoder = encoder', mu_net = mu_net', logvar_net = logvar_net',
                    decoder = decoder', training = True, mu = None, logvar = None,
                    std = None, latent = None\<rparr>))"

definition encode :: "'n VAENetwork \<Rightarrow> tensor \<Rightarrow> error + tensor" where
  "encode self inputs =
     (case encoder self inputs of
        Inl e \<Rightarrow> Inl e
      | Inr encoded \<Rightarrow> Linear_forward (mu_net self) (relu encoded))"

definition reparametrize ::
  "'n VAENetwork \<Rightarrow> (nat \<Rightarrow> nat \<Rightarrow> real) \<Rightarrow> tensor \<Rightarrow> tensor \<Rightarrow> error + tensor" where
  "reparametrize self rng mu' std' =
     (if training self
      then (case elementwise (*) std' (normal_inplace rng std') of
              Inl e \<Rightarrow> Inl e
            | Inr noise \<Rightarrow> elementwise (+) mu' noise)
      else Inr mu')"

definition forward ::
  "'n VAENetwork \<Rightarrow> (nat \<Rightarrow> nat \<Rightarrow> real) \<Rightarrow> tensor \<Rightarrow> 'n option
     \<Rightarrow> error + (tensor \<times> 'n VAENetwork)" where
  "forward self rng x nonlinearity =
     (case encoder self x of
        Inl e \<Rightarrow> Inl e
      | Inr encoded \<Rightarrow>
          (case Linear_forward (mu_net self) (relu encoded) of
             Inl e \<Rightarrow> Inl e
           | Inr m \<Rightarrow>
               (case Linear_forward (logvar_net self) (relu encoded) of
                  Inl e \<Rightarrow> Inl e
                | Inr lv \<Rightarrow>
                    (case reparametrize self rng m (exp_inplace lv) of
                       Inl e \<Rightarrow> Inl e
                     | Inr z \<Rightarrow>
                         (case decoder self z nonlinearity of
                            Inl e \<Rightarrow> Inl e
                          | Inr y \<Rightarrow>
                              Inr (y, self\<lparr>mu := Some m, std := Some (exp_inplace lv),
                                          latent := Some z\<rparr>))))))"

section \<open>The loss of the training routine\<close>

text \<open>
  Dividing a scalar by a size. For a size of zero the floats give \<open>NaN\<close> or an
  infinity, never a number.
\<close>

definition div_size :: "real \<Rightarrow> nat \<Rightarrow> error + real" where
  "div_size x n = (if n = 0 then Inl NonFinite else Inr (x / real n))"

definition sum_all :: "tensor \<Rightarrow> real" where
  "sum_all t = sum_list (map sum_list t)"

definition numel :: "tensor \<Rightarrow> nat" where
  "numel t = sum_list (map length t)"

text \<open>
  \<^verbatim>\<open>F.mse_loss(input, target, size_average)\<close>: the squared differences, averaged over
  all entries when \<open>size_average\<close> holds and summed otherwise.
\<close>

definition mse_loss :: "tensor \<Rightarrow> tensor \<Rightarrow> bool \<Rightarrow> error + real" where
  "mse_loss input target size_average =
     (case elementwise (\<lambda>a b. (a - b)\<^sup>2) input target of
        Inl e \<Rightarrow> Inl e
      | Inr d \<Rightarrow> if size_average then div_size (sum_all d) (numel d) else Inr (sum_all d))"

text \<open>\<^verbatim>\<open>torch.log\<close>, a real number on positive entries only.\<close>

definition torch_log :: "tensor \<Rightarrow> error + tensor" where
  "torch_log t =
     (if list_all (list_all (\<lambda>x. 0 < x)) t then Inr (map (map ln) t) else Inl NonFinite)"

text \<open>\<^verbatim>\<open>.sum(1)\<close> of a batch and \<^verbatim>\<open>.mean()\<close> of the vector it gives.\<close>

definition sum1 :: "tensor \<Rightarrow> real list" where
  "sum1 t = map sum_list t"

definition mean :: "real list \<Rightarrow> error + real" where
  "mean v = div_size (sum_list v) (length v)"

text \<open>
  The expression bound to \<^verbatim>\<open>kl\<close> in \<^verbatim>\<open>VAE.routine\<close>, as a function of \<^verbatim>\<open>vae.mu\<close> and
  \<^verbatim>\<open>vae.std\<close>. The method calls bind tighter than the product, so the factor \<open>0.5\<close>
  multiplies the mean.
\<close>

definition kl :: "tensor \<Rightarrow> tensor \<Rightarrow> error + real" where
  "kl mu' std' =
     (case elementwise (+) (map (map (\<lambda>s. s\<^sup>2)) std') (map (map (\<lambda>m. m\<^sup>2)) mu') of
        Inl e \<Rightarrow> Inl e
      | Inr a \<Rightarrow>
          (case torch_log std' of
             Inl e \<Rightarrow> Inl e
           | Inr l \<Rightarrow>
               (case elementwise (-) a (map (map (\<lambda>x. 2 * x)) l) of
                  Inl e \<Rightarrow> Inl e
                | Inr b \<Rightarrow>
                    (case mean (sum1 (map (map (\<lambda>x. x - 1)) b)) of
                       Inl e \<Rightarrow> Inl e
                     | Inr m \<Rightarrow> Inr (0.5 * m)))))"

section \<open>The VAE plugin\<close>

text \<open>
  What the routine reads and writes of the plugin: the network \<^verbatim>\<open>self.nets.vae\<close> and
  the two containers \<^verbatim>\<open>self.losses\<close> and \<^verbatim>\<open>self.results\<close>, keyed by name.
\<close>

record 'n VAE =
  nets_vae :: "'n VAENetwork option"
  losses :: "string \<rightharpoonup> real"
  results :: "string \<rightharpoonup> real"

text \<open>
  \<^verbatim>\<open>VAE.routine\<close>. The similarity measure \<open>ms_ssim\<close> is defined outside this file and
  is a parameter, as is the random source; a keyword argument that the caller leaves
  out is \<open>None\<close> and takes its default.
\<close>

definition routine ::
  "(tensor \<Rightarrow> tensor \<Rightarrow> error + real) \<Rightarrow> (nat \<Rightarrow> nat \<Rightarrow> real) \<Rightarrow> 'n VAE \<Rightarrow> tensor \<Rightarrow> 't \<Rightarrow> 'z
     \<Rightarrow> (tensor \<Rightarrow> tensor \<Rightarrow> bool \<Rightarrow> error + real) option \<Rightarrow> real option \<Rightarrow> error + 'n VAE" where
  "routine ms_ssim rng self inputs targets Z vae_criterion beta_kld =
     (case nets_vae self of
        None \<Rightarrow> Inl AttributeError
      | Some vae \<Rightarrow>
          (case forward vae rng inputs None of
             Inl e \<Rightarrow> Inl e
           | Inr (outputs, vae') \<Rightarrow>
               (case (case vae_criterion of None \<Rightarrow> mse_loss | Some c \<Rightarrow> c) outputs inputs False of
                  Inl e \<Rightarrow> Inl e
                | Inr s \<Rightarrow>
                    (case div_size s (length inputs) of
                       Inl e \<Rightarrow> Inl e
                     | Inr r_loss \<Rightarrow>
                         (case (mu vae', std vae') of
                            (Some m, Some sd) \<Rightarrow>
                              (case kl m sd of
                                 Inl e \<Rightarrow> Inl e
                               | Inr k \<Rightarrow>
                                   (case ms_ssim inputs outputs of
                                      Inl e \<Rightarrow> Inl e
                                    | Inr msssim \<Rightarrow>
                                        Inr (self\<lparr>nets_vae := Some vae',
                                          losses := (losses self)(''vae'' \<mapsto>
                                            r_loss + (case beta_kld of None \<Rightarrow> 1 | Some b \<Rightarrow> b) * k),
                                          results := (results self)(''KL_divergence'' \<mapsto> k,
                                            ''ms_ssim'' \<mapsto> msssim)\<rparr>)))
                          | _ \<Rightarrow> Inl AttributeError)))))"

text \<open>
  \<^verbatim>\<open>VAE.build\<close>. The plugins \<^verbatim>\<open>self.encoder\<close> and \<^verbatim>\<open>self.decoder\<close> build their
  networks with classes defined outside this file, and \<^verbatim>\<open>add_noise\<close> belongs to the
  plugin base class: the three are parameters that give their result or raise. The
  decoder's contract passes \<open>dim_z\<close> to its build as \<^verbatim>\<open>dim_in\<close>. An argument that the
  caller leaves out is \<open>None\<close> and takes its default.
\<close>

definition build ::
  "(error + (tensor \<Rightarrow> error + tensor)) \<Rightarrow> (int \<Rightarrow> error + (tensor \<Rightarrow> 'n option \<Rightarrow> error + tensor))
     \<Rightarrow> (int \<Rightarrow> error + unit) \<Rightarrow> (int \<Rightarrow> int \<Rightarrow> bool)
     \<Rightarrow> (nat \<Rightarrow> nat \<Rightarrow> real) \<times> (nat \<Rightarrow> real) \<Rightarrow> (nat \<Rightarrow> nat \<Rightarrow> real) \<times> (nat \<Rightarrow> real)
     \<Rightarrow> 'n VAE \<Rightarrow> int option \<Rightarrow> int option \<Rightarrow> error + 'n VAE" where
  "build encoder_build decoder_build add_noise accepts init_mu init_logvar self dim_z
       dim_encoder_out =
     (case encoder_build of
        Inl e \<Rightarrow> Inl e
      | Inr encoder' \<Rightarrow>
          (case decoder_build (case dim_z of None \<Rightarrow> 64 | Some d \<Rightarrow> d) of
             Inl e \<Rightarrow> Inl e
           | Inr decoder' \<Rightarrow>
               (case add_noise (case dim_z of None \<Rightarrow> 64 | Some d \<Rightarrow> d) of
                  Inl e \<Rightarrow> Inl e
                | Inr _ \<Rightarrow>
                    (case VAENetwork_init accepts init_mu init_logvar encoder' decoder'
                            (case dim_encoder_out of None \<Rightarrow> 1024 | Some d \<Rightarrow> d)
                            (case dim_z of None \<Rightarrow> 64 | Some d \<Rightarrow> d) of
                       Inl e \<Rightarrow> Inl e
                     | Inr vae \<Rightarrow> Inr (self\<lparr>nets_vae := Some vae\<rparr>)))))"

section \<open>Example networks\<close>

text \<open>
  A small network on which the statements below are run: two input features, one
  latent dimension, the identity as encoder, a mean head that adds the two features, a
  log-variance head that is constantly \<open>c\<close>, and a decoder that repeats the latent
  value.
\<close>

definition ex_mu_net :: Linear where
  "ex_mu_net = \<lparr>in_features = 2, out_features = 1, weight = (\<lambda>j i. 1), bias = (\<lambda>j. 0)\<rparr>"

definition ex_logvar_net :: "real \<Rightarrow> Linear" where
  "ex_logvar_net c = \<lparr>in_features = 2, out_features = 1, weight = (\<lambda>j i. 0), bias = (\<lambda>j. c)\<rparr>"

definition ex_decoder :: "tensor \<Rightarrow> unit option \<Rightarrow> error + tensor" where
  "ex_decoder z nl = Inr (map (\<lambda>row. row @ row) z)"

definition ex_net :: "bool \<Rightarrow> real \<Rightarrow> unit VAENetwork" where
  "ex_net tr c =
     \<lparr>encoder = Inr, mu_net = ex_mu_net, logvar_net = ex_logvar_net c, decoder = ex_decoder,
      training = tr, mu = None, logvar = None, std = None, latent = None\<rparr>"

definition ex_noise :: "nat \<Rightarrow> nat \<Rightarrow> real" where
  "ex_noise i j = 1"

definition ex_ms_ssim :: "tensor \<Rightarrow> tensor \<Rightarrow> error + real" where
  "ex_ms_ssim a b = Inr (1 / 4)"

definition ex_plugin :: "bool \<Rightarrow> unit VAE" where
  "ex_plugin tr = \<lparr>nets_vae = Some (ex_net tr 0), losses = Map.empty, results = Map.empty\<rparr>"

text \<open>Collaborators of \<open>build\<close> that all succeed, and a library that wants positive sizes.\<close>

definition ex_accepts :: "int \<Rightarrow> int \<Rightarrow> bool" where
  "ex_accepts n_in n_out = (0 < n_in \<and> 0 < n_out)"

definition ex_init :: "(nat \<Rightarrow> nat \<Rightarrow> real) \<times> (nat \<Rightarrow> real)" where
  "ex_init = ((\<lambda>j i. 0), (\<lambda>j. 0))"

definition ex_unbuilt :: "unit VAE" where
  "ex_unbuilt = \<lparr>nets_vae = None, losses = Map.empty, results = Map.empty\<rparr>"

definition ex_build :: "int option \<Rightarrow> int option \<Rightarrow> error + unit VAE" where
  "ex_build dim_z dim_encoder_out =
     build (Inr Inr) (\<lambda>d. Inr ex_decoder) (\<lambda>d. Inr ()) ex_accepts ex_init ex_init ex_unbuilt
       dim_z dim_encoder_out"

text \<open>
  Initial weights for two heads from two features to two latent dimensions, and the
  network that the constructor gives for them: the mean head sums the features and
  scales by the row number plus one, the log-variance head takes the first feature and
  adds the row number.
\<close>

definition ex_init_mu :: "(nat \<Rightarrow> nat \<Rightarrow> real) \<times> (nat \<Rightarrow> real)" where
  "ex_init_mu = ((\<lambda>j i. real j + 1), (\<lambda>j. 0))"

definition ex_init_logvar :: "(nat \<Rightarrow> nat \<Rightarrow> real) \<times> (nat \<Rightarrow> real)" where
  "ex_init_logvar = ((\<lambda>j i. if i = 0 then 1 else 0), (\<lambda>j. real j))"

definition ex_built_net :: "unit VAENetwork" where
  "ex_built_net =
     \<lparr>encoder = Inr,
      mu_net = \<lparr>in_features = 2, out_features = 2,
                weight = fst ex_init_mu, bias = snd ex_init_mu\<rparr>,
      logvar_net = \<lparr>in_features = 2, out_features = 2,
                    weight = fst ex_init_logvar, bias = snd ex_init_logvar\<rparr>,
      decoder = ex_decoder, training = True, mu = None, logvar = None, std = None,
      latent = None\<rparr>"

section \<open>How the operations return\<close>

lemma forward_InrD:
  assumes "forward self rng x nl = Inr (y, self')"
  obtains feat m lv z where "encoder self x = Inr feat"
    "Linear_forward (mu_net self) (relu feat) = Inr m"
    "Linear_forward (logvar_net self) (relu feat) = Inr lv"
    "reparametrize self rng m (exp_inplace lv) = Inr z"
    "decoder self z nl = Inr y"
    "self' = self\<lparr>mu := Some m, std := Some (exp_inplace lv), latent := Some z\<rparr>"
  using assms unfolding forward_def by (auto split: sum.splits)

lemma Linear_forward_shape:
  assumes "Linear_forward L x = Inr y"
  shows "length y = length x" and "\<And>row. row \<in> set y \<Longrightarrow> length row = out_features L"
  using assms unfolding Linear_forward_def by (auto split: if_splits)

lemma routine_InrD:
  assumes "routine ms_ssim rng self inputs targets Z vae_criterion beta_kld = Inr self'"
  obtains vae outputs vae' s r m sd k v where
    "nets_vae self = Some vae"
    "forward vae rng inputs None = Inr (outputs, vae')"
    "(case vae_criterion of None \<Rightarrow> mse_loss | Some c \<Rightarrow> c) outputs inputs False = Inr s"
    "div_size s (length inputs) = Inr r"
    "mu vae' = Some m" "std vae' = Some sd"
    "kl m sd = Inr k"
    "ms_ssim inputs outputs = Inr v"
    "self' = self\<lparr>nets_vae := Some vae',
        losses := (losses self)(''vae'' \<mapsto> r + (case beta_kld of None \<Rightarrow> 1 | Some b \<Rightarrow> b) * k),
        results := (results self)(''KL_divergence'' \<mapsto> k, ''ms_ssim'' \<mapsto> v)\<rparr>"
  using assms unfolding routine_def
  by (auto split: sum.splits option.splits prod.splits)

lemma div_size_Inr: "div_size x n = Inr r \<longleftrightarrow> 0 < n \<and> r = x / real n"
  unfolding div_size_def by auto

lemma elementwise_Inr: "elementwise f a b = Inr c \<longleftrightarrow> map length a = map length b \<and> c = map2 (map2 f) a b"
  unfolding elementwise_def by auto

lemma torch_log_Inr: "torch_log t = Inr l \<longleftrightarrow> list_all (list_all (\<lambda>x. 0 < x)) t \<and> l = map (map ln) t"
  unfolding torch_log_def by auto

lemma nn_Linear_sizes:
  assumes "nn_Linear accepts init n_in n_out = Inr L"
  shows "int (in_features L) = n_in" and "int (out_features L) = n_out"
  using assms unfolding nn_Linear_def by (auto split: if_splits)

lemma VAENetwork_init_sizes:
  assumes "VAENetwork_init accepts init_mu init_logvar enc dec dim_out dim_z = Inr net"
  shows "int (out_features (mu_net net)) = dim_z" and "int (out_features (logvar_net net)) = dim_z"
    and "int (in_features (mu_net net)) = dim_out" and "int (in_features (logvar_net net)) = dim_out"
    and "encoder net = enc" and "decoder net = dec" and "training net"
  using assms unfolding VAENetwork_init_def
  by (auto split: sum.splits dest: nn_Linear_sizes)

lemma nn_Linear_Inr:
  assumes "nn_Linear accepts init n_in n_out = Inr L"
  shows "L = \<lparr>in_features = nat n_in, out_features = nat n_out,
              weight = fst init, bias = snd init\<rparr>"
    and "0 \<le> n_in" and "0 \<le> n_out"
  using assms unfolding nn_Linear_def by (auto split: if_splits)

lemma VAENetwork_init_heads:
  assumes "VAENetwork_init accepts init_mu init_logvar enc dec dim_out dim_z = Inr net"
  shows "mu_net net = \<lparr>in_features = nat dim_out, out_features = nat dim_z,
                         weight = fst init_mu, bias = snd init_mu\<rparr>"
    and "logvar_net net = \<lparr>in_features = nat dim_out, out_features = nat dim_z,
                             weight = fst init_logvar, bias = snd init_logvar\<rparr>"
    and "0 \<le> dim_z"
  using assms unfolding VAENetwork_init_def
  by (auto split: sum.splits dest: nn_Linear_Inr)

lemma Linear_forward_relu:
  assumes "Linear_forward L (relu feat) = Inr y"
  shows "y = map (\<lambda>row. map (\<lambda>j. (\<Sum>i\<leftarrow>[0..<in_features L]. max 0 (row ! i) * weight L j i)
                                    + bias L j) [0..<out_features L]) feat"
    and "\<forall>row\<in>set feat. length row = in_features L"
proof -
  from assms have w: "\<forall>row\<in>set feat. length row = in_features L"
    unfolding Linear_forward_def relu_def by (auto simp: list_all_iff split: if_splits)
  from assms have y: "y = map (\<lambda>row. map (\<lambda>j. (\<Sum>i\<leftarrow>[0..<in_features L]. row ! i * weight L j i)
                                    + bias L j) [0..<out_features L]) (relu feat)"
    unfolding Linear_forward_def by (auto split: if_splits)
  have "(\<Sum>i\<leftarrow>[0..<in_features L]. map (max 0) row ! i * weight L j i)
      = (\<Sum>i\<leftarrow>[0..<in_features L]. max 0 (row ! i) * weight L j i)"
    if "row \<in> set feat" for row j
  proof -
    from that w have "length row = in_features L" by blast
    then have "map (\<lambda>i. map (max 0) row ! i * weight L j i) [0..<in_features L]
        = map (\<lambda>i. max 0 (row ! i) * weight L j i) [0..<in_features L]"
      by (intro map_cong) auto
    then show ?thesis by (rule arg_cong)
  qed
  then show "y = map (\<lambda>row. map (\<lambda>j. (\<Sum>i\<leftarrow>[0..<in_features L]. max 0 (row ! i) * weight L j i)
                                    + bias L j) [0..<out_features L]) feat"
    unfolding y relu_def by (simp add: comp_def)
  show "\<forall>row\<in>set feat. length row = in_features L" by (fact w)
qed

lemma mse_loss_sum:
  assumes "mse_loss input target False = Inr s"
  shows "map length input = map length target"
    and "s = (\<Sum>(irow, trow)\<leftarrow>zip input target. \<Sum>(a, b)\<leftarrow>zip irow trow. (a - b)\<^sup>2)"
  using assms unfolding mse_loss_def elementwise_def sum_all_def
  by (auto simp: comp_def case_prod_unfold split: if_splits)

lemma map_map_eq_iff:
  "map (map f) t = map (map g) t \<longleftrightarrow> (\<forall>row\<in>set t. \<forall>v\<in>set row. f v = g v)"
  by (induction t) auto

section \<open>When the forward pass returns\<close>

text \<open>
  The forward pass of a network built by the constructor returns whenever the encoder
  returns features of the width \<open>dim_out\<close> and the decoder accepts a latent batch of width
  \<open>dim_z\<close>, in either mode: the two heads and the sampler raise nothing.
\<close>

lemma map_length_map2:
  "map length a = map length b \<Longrightarrow> map length (map2 (map2 f) a b) = map length a"
proof (induction a arbitrary: b)
  case Nil then show ?case by simp
next
  case (Cons r a)
  then obtain r' b' where "b = r' # b'" by (cases b) auto
  with Cons show ?case by auto
qed

lemma map_length_map_map: "map length (map (map f) t) = map length t"
  by (induction t) auto

lemma normal_inplace_shape: "map length (normal_inplace rng t) = map length t"
  unfolding normal_inplace_def
  by (rule nth_equalityI) auto

lemma Linear_forward_returns:
  assumes "\<forall>row\<in>set x. length row = in_features L"
  shows "\<exists>y. Linear_forward L x = Inr y \<and> map length y = replicate (length x) (out_features L)"
  using assms unfolding Linear_forward_def
  by (auto simp: list_all_iff comp_def map_replicate_const)

lemma reparametrize_returns:
  assumes "map length m = map length sd"
  shows "\<exists>z. reparametrize self rng m sd = Inr z \<and> map length z = map length m"
proof (cases "training self")
  case False
  then show ?thesis unfolding reparametrize_def by simp
next
  case True
  define noise where "noise = map2 (map2 (*)) sd (normal_inplace rng sd)"
  have s1: "map length sd = map length (normal_inplace rng sd)"
    by (simp only: normal_inplace_shape)
  have 1: "elementwise (*) sd (normal_inplace rng sd) = Inr noise"
    unfolding elementwise_Inr noise_def using s1 by blast
  have 2: "map length noise = map length sd"
    unfolding noise_def using s1 by (rule map_length_map2)
  have s3: "map length m = map length noise"
    using assms 2 by (simp only:)
  have 3: "elementwise (+) m noise = Inr (map2 (map2 (+)) m noise)"
    unfolding elementwise_Inr using s3 by blast
  have 4: "map length (map2 (map2 (+)) m noise) = map length m"
    using s3 by (rule map_length_map2)
  show ?thesis unfolding reparametrize_def using True 1 3 4 by simp
qed

lemma forward_returns:
  assumes init: "VAENetwork_init accepts init_mu init_logvar enc dec dim_out dim_z = Inr net"
    and enc: "enc x = Inr feat"
    and width: "\<forall>row\<in>set feat. int (length row) = dim_out"
    and dec: "\<And>z. map length z = replicate (length feat) (nat dim_z) \<Longrightarrow> \<exists>y. dec z nl = Inr y"
  shows "\<exists>y net'. forward (net\<lparr>training := tr\<rparr>) rng x nl = Inr (y, net')"
proof -
  let ?self = "net\<lparr>training := tr\<rparr>"
  note sz = VAENetwork_init_sizes[OF init]
  have w: "\<forall>row\<in>set (relu feat). length row = in_features (mu_net net)"
    "\<forall>row\<in>set (relu feat). length row = in_features (logvar_net net)"
    using width sz(3,4) unfolding relu_def by auto
  have len: "length (relu feat) = length feat" unfolding relu_def by simp
  from Linear_forward_returns[OF w(1)] obtain m where
    m: "Linear_forward (mu_net net) (relu feat) = Inr m"
    and ms: "map length m = replicate (length feat) (nat dim_z)"
    using sz(1) len by auto
  from Linear_forward_returns[OF w(2)] obtain lv where
    lv: "Linear_forward (logvar_net net) (relu feat) = Inr lv"
    and lvs: "map length lv = replicate (length feat) (nat dim_z)"
    using sz(2) len by auto
  have "map length m = map length (exp_inplace lv)"
    unfolding exp_inplace_def map_length_map_map using ms lvs by simp
  from reparametrize_returns[OF this, of ?self rng] obtain z where
    z: "reparametrize ?self rng m (exp_inplace lv) = Inr z" and "map length z = map length m"
    by blast
  with ms dec obtain y where y: "dec z nl = Inr y" by auto
  show ?thesis
    unfolding forward_def using enc m lv z y sz(5,6) by simp
qed

section \<open>The closed form of the KL term\<close>

lemma kl_row:
  "length a = length s \<Longrightarrow>
   map (\<lambda>x. x - 1) (map2 (-) (map2 (+) (map (\<lambda>s. s\<^sup>2) s) (map (\<lambda>m. m\<^sup>2) a)) (map (\<lambda>x. 2 * x) (map ln s)))
   = map2 (\<lambda>a s. s\<^sup>2 + a\<^sup>2 - 2 * ln s - (1::real)) a s"
  by (induction a s rule: list_induct2) auto

lemma kl_rows:
  "map length m = map length sd \<Longrightarrow>
   map (map (\<lambda>x. x - 1)) (map2 (map2 (-)) (map2 (map2 (+)) (map (map (\<lambda>s. s\<^sup>2)) sd) (map (map (\<lambda>m. m\<^sup>2)) m))
      (map (map (\<lambda>x. 2 * x)) (map (map ln) sd)))
   = map2 (map2 (\<lambda>a s. s\<^sup>2 + a\<^sup>2 - 2 * ln s - (1::real))) m sd"
proof (induction m arbitrary: sd)
  case Nil then show ?case by simp
next
  case (Cons r m)
  then obtain r' sd' where sd: "sd = r' # sd'" by (cases sd) auto
  with Cons.prems have "length r = length r'" "map length m = map length sd'" by auto
  with Cons.IH[of sd'] kl_row[of r r'] show ?case unfolding sd by simp
qed

lemma kl_steps:
  assumes "kl m sd = Inr k"
  obtains a l b r where
    "elementwise (+) (map (map (\<lambda>s. s\<^sup>2)) sd) (map (map (\<lambda>m. m\<^sup>2)) m) = Inr a"
    "torch_log sd = Inr l"
    "elementwise (-) a (map (map (\<lambda>x. 2 * x)) l) = Inr b"
    "mean (sum1 (map (map (\<lambda>x. x - 1)) b)) = Inr r"
    "k = 0.5 * r"
  using assms unfolding kl_def by (auto split: sum.splits)

lemma kl_InrD:
  assumes "kl m sd = Inr k"
  shows "map length sd = map length m"
    and "list_all (list_all (\<lambda>x. 0 < x)) sd"
    and "m \<noteq> []"
    and "k = 0.5 * (sum_list (map sum_list (map2 (map2 (\<lambda>a s. s\<^sup>2 + a\<^sup>2 - 2 * ln s - 1)) m sd))
                     / real (length m))"
proof -
  from assms obtain a l b r where
    a: "elementwise (+) (map (map (\<lambda>s. s\<^sup>2)) sd) (map (map (\<lambda>m. m\<^sup>2)) m) = Inr a" and
    l: "torch_log sd = Inr l" and
    b: "elementwise (-) a (map (map (\<lambda>x. 2 * x)) l) = Inr b" and
    r: "mean (sum1 (map (map (\<lambda>x. x - 1)) b)) = Inr r" and
    k: "k = 0.5 * r"
    by (rule kl_steps)
  from a have "map length (map (map (\<lambda>s. s\<^sup>2)) sd) = map length (map (map (\<lambda>m. m\<^sup>2)) m)"
    and a_eq: "a = map2 (map2 (+)) (map (map (\<lambda>s. s\<^sup>2)) sd) (map (map (\<lambda>m. m\<^sup>2)) m)"
    unfolding elementwise_Inr by blast+
  then have shape: "map length sd = map length m"
    unfolding map_length_map_map by simp
  show "map length sd = map length m" by (fact shape)
  from l have pos: "list_all (list_all (\<lambda>x. 0 < x)) sd" and l_eq: "l = map (map ln) sd"
    unfolding torch_log_Inr by blast+
  show "list_all (list_all (\<lambda>x. 0 < x)) sd" by (fact pos)
  from b have b_eq: "b = map2 (map2 (-)) a (map (map (\<lambda>x. 2 * x)) l)"
    unfolding elementwise_Inr by blast
  have "map (map (\<lambda>x. x - 1)) b = map2 (map2 (\<lambda>a s. s\<^sup>2 + a\<^sup>2 - 2 * ln s - 1)) m sd"
    unfolding b_eq a_eq l_eq using shape[symmetric] by (rule kl_rows)
  with r have r': "mean (sum1 (map2 (map2 (\<lambda>a s. s\<^sup>2 + a\<^sup>2 - 2 * ln s - 1)) m sd)) = Inr r"
    by simp
  have len: "length sd = length m" using shape by (rule map_eq_imp_length_eq)
  from r' len show "m \<noteq> []"
    unfolding mean_def sum1_def div_size_Inr by auto
  from r' len k show "k = 0.5 * (sum_list (map sum_list (map2 (map2 (\<lambda>a s. s\<^sup>2 + a\<^sup>2 - 2 * ln s - 1)) m sd))
                     / real (length m))"
    unfolding mean_def sum1_def div_size_Inr by auto
qed

lemma scaled_rows:
  "(\<Sum>(mrow, srow)\<leftarrow>zip m sd. c * (\<Sum>(a, s)\<leftarrow>zip mrow srow. f a s))
   = c * sum_list (map sum_list (map2 (map2 f) m sd))" for c :: real
  by (simp add: comp_def case_prod_unfold sum_list_const_mult)

lemma half_mean_rows:
  "0.5 * (sum_list (map sum_list (map2 (map2 f) m sd)) / n)
   = (\<Sum>(mrow, srow)\<leftarrow>zip m sd. 0.5 * (\<Sum>(a, s)\<leftarrow>zip mrow srow. f a s)) / (n :: real)"
  unfolding scaled_rows by simp

section \<open>The example network, run\<close>

lemmas ex_defs = ex_net_def ex_mu_net_def ex_logvar_net_def ex_decoder_def ex_noise_def
lemmas fw_defs = forward_def Linear_forward_def relu_def exp_inplace_def reparametrize_def
  elementwise_def normal_inplace_def

lemma ex_forward_train:
  "forward (ex_net True 1) ex_noise [[-1, 2], [3, 1]] None =
     Inr ([[2 + exp 1, 2 + exp 1], [4 + exp 1, 4 + exp 1]],
          (ex_net True 1)\<lparr>mu := Some [[2], [4]], std := Some [[exp 1], [exp 1]],
                           latent := Some [[2 + exp 1], [4 + exp 1]]\<rparr>)"
  by (simp add: ex_defs fw_defs upt_rec)

lemma ex_forward_eval:
  "forward (ex_net False 0) ex_noise [[-1, 2], [3, 1]] None =
     Inr ([[2, 2], [4, 4]],
          (ex_net False 0)\<lparr>mu := Some [[2], [4]], std := Some [[1], [1]],
                            latent := Some [[2], [4]]\<rparr>)"
  by (simp add: ex_defs fw_defs upt_rec)

lemma ex_forward_noisy:
  "forward (ex_net True 0) ex_noise [[-1, 2], [3, 1]] None =
     Inr ([[3, 3], [5, 5]],
          (ex_net True 0)\<lparr>mu := Some [[2], [4]], std := Some [[1], [1]],
                           latent := Some [[3], [5]]\<rparr>)"
  by (simp add: ex_defs fw_defs upt_rec)

lemma ex_kl: "kl [[2], [4]] [[1], [1]] = Inr 5"
  by (simp add: kl_def elementwise_def torch_log_def mean_def sum1_def div_size_def)

lemma ex_mse_eval: "mse_loss [[2, 2], [4, 4]] [[-1, 2], [3, 1]] False = Inr 19"
  by (simp add: mse_loss_def elementwise_def sum_all_def)

lemma ex_mse_noisy: "mse_loss [[3, 3], [5, 5]] [[-1, 2], [3, 1]] False = Inr 37"
  by (simp add: mse_loss_def elementwise_def sum_all_def)

lemma ex_routine:
  "routine ex_ms_ssim ex_noise (ex_plugin False) [[-1, 2], [3, 1]] () () None None =
     Inr ((ex_plugin False)\<lparr>
       nets_vae := Some ((ex_net False 0)\<lparr>mu := Some [[2], [4]], std := Some [[1], [1]],
                                           latent := Some [[2], [4]]\<rparr>),
       losses := [''vae'' \<mapsto> 29 / 2],
       results := [''KL_divergence'' \<mapsto> 5, ''ms_ssim'' \<mapsto> 1 / 4]\<rparr>)"
  by (simp add: routine_def ex_plugin_def ex_forward_eval ex_mse_eval ex_kl div_size_def
      ex_ms_ssim_def)

lemma ex_routine_train:
  "routine ex_ms_ssim ex_noise (ex_plugin True) [[-1, 2], [3, 1]] () () None (Some 2) =
     Inr ((ex_plugin True)\<lparr>
       nets_vae := Some ((ex_net True 0)\<lparr>mu := Some [[2], [4]], std := Some [[1], [1]],
                                          latent := Some [[3], [5]]\<rparr>),
       losses := [''vae'' \<mapsto> 57 / 2],
       results := [''KL_divergence'' \<mapsto> 5, ''ms_ssim'' \<mapsto> 1 / 4]\<rparr>)"
  by (simp add: routine_def ex_plugin_def ex_forward_noisy ex_mse_noisy ex_kl div_size_def
      ex_ms_ssim_def)

lemma ex_built_net_init:
  "VAENetwork_init ex_accepts ex_init_mu ex_init_logvar Inr ex_decoder 2 2 = Inr ex_built_net"
  by (simp add: VAENetwork_init_def nn_Linear_def ex_accepts_def ex_built_net_def)

lemma ex_forward_built:
  "forward (ex_built_net\<lparr>training := False\<rparr>) ex_noise [[-1, 2], [3, 1]] None =
     Inr ([[2, 4, 2, 4], [4, 8, 4, 8]],
          ex_built_net\<lparr>training := False, mu := Some [[2, 4], [4, 8]],
                       std := Some [[1, exp 1], [exp 3, exp 4]],
                       latent := Some [[2, 4], [4, 8]]\<rparr>)"
  by (simp add: ex_built_net_def ex_init_mu_def ex_init_logvar_def ex_decoder_def fw_defs upt_rec)

lemma ex_results_ran:
  "(19 / 2 :: real) \<notin> ran [''KL_divergence'' \<mapsto> 5 :: real, ''ms_ssim'' \<mapsto> 1 / 4]"
proof -
  have "''KL_divergence'' \<noteq> ''ms_ssim''" by simp
  then show ?thesis by (simp add: ran_map_upd)
qed

lemma ex_results_dom:
  "dom [''KL_divergence'' \<mapsto> 5 :: real, ''ms_ssim'' \<mapsto> 1 / 4] = {''ms_ssim'', ''KL_divergence''}"
  by simp

lemma ex_results_card: "card {''ms_ssim'', ''KL_divergence''} = 2"
  by simp

section \<open>The forward pass\<close>

text \<open>
  C1. In the forward pass the standard deviation is the elementwise exponential of the
  raw output of the log-variance head on the rectified encoder features: this value is
  recorded as \<open>std\<close> (where the loss reads it) and is the one handed to the sampler.
  It is \<open>exp logvar\<close> and not \<open>exp (0.5 * logvar)\<close>: the two agree only where every
  entry of the head's output is zero.
\<close>

theorem forward_std_is_exp_logvar:
  assumes "forward self rng x nl = Inr (y, self')"
  shows "\<exists>feat lv m z.
           encoder self x = Inr feat
         \<and> Linear_forward (logvar_net self) (relu feat) = Inr lv
         \<and> std self' = Some (map (map exp) lv)
         \<and> Linear_forward (mu_net self) (relu feat) = Inr m
         \<and> reparametrize self rng m (map (map exp) lv) = Inr z
         \<and> latent self' = Some z
         \<and> (std self' = Some (map (map (\<lambda>v. exp (0.5 * v))) lv)
              \<longleftrightarrow> (\<forall>row\<in>set lv. \<forall>v\<in>set row. v = 0))"
proof -
  from assms obtain feat m lv z where
    "encoder self x = Inr feat"
    "Linear_forward (mu_net self) (relu feat) = Inr m"
    "Linear_forward (logvar_net self) (relu feat) = Inr lv"
    "reparametrize self rng m (exp_inplace lv) = Inr z"
    "self' = self\<lparr>mu := Some m, std := Some (exp_inplace lv), latent := Some z\<rparr>"
    by (rule forward_InrD)
  moreover have "map (map exp) lv = map (map (\<lambda>v. exp (0.5 * v))) lv
      \<longleftrightarrow> (\<forall>row\<in>set lv. \<forall>v\<in>set row. v = 0)"
    unfolding map_map_eq_iff by auto
  ultimately show ?thesis
    unfolding exp_inplace_def by auto
qed

theorem forward_std_is_exp_logvar_witness:
  "forward (ex_net True 1) ex_noise [[-1, 2], [3, 1]] None =
     Inr ([[2 + exp 1, 2 + exp 1], [4 + exp 1, 4 + exp 1]],
          (ex_net True 1)\<lparr>mu := Some [[2], [4]], std := Some [[exp 1], [exp 1]],
                           latent := Some [[2 + exp 1], [4 + exp 1]]\<rparr>)
   \<and> Linear_forward (logvar_net (ex_net True 1)) (relu [[-1, 2], [3, 1]]) = Inr [[1], [1]]
   \<and> map (map exp) [[1], [1 :: real]] = [[exp 1], [exp 1]]
   \<and> map (map (\<lambda>v. exp (0.5 * v))) [[1], [1 :: real]] \<noteq> [[exp 1], [exp 1]]"
proof -
  note h = ex_forward_train
  from forward_std_is_exp_logvar [OF h] obtain lv where lv:
    "Linear_forward (logvar_net (ex_net True 1)) (relu [[-1, 2], [3, 1]]) = Inr lv"
    "Some [[exp 1], [exp 1]] = Some (map (map exp) lv)"
    "Some [[exp 1], [exp 1]] = Some (map (map (\<lambda>v. exp (0.5 * v))) lv)
       \<longleftrightarrow> (\<forall>row\<in>set lv. \<forall>v\<in>set row. v = 0)"
    by (auto simp: ex_defs)
  have l1: "Linear_forward (logvar_net (ex_net True 1)) (relu [[-1, 2], [3, 1]]) = Inr [[1], [1]]"
    by (simp add: ex_defs fw_defs upt_rec)
  with lv(1) have "lv = [[1], [1]]" by simp
  with lv l1 h show ?thesis by simp
qed

text \<open>
  C4. Outside training mode the sampler returns the mean unchanged, whatever the random
  source: the recorded latent is the recorded mean, the reconstruction is the decoder
  applied to that mean (with the non-linearity passed on), and no draw of the random
  source changes the result. The mean is what \<open>encode\<close> returns.
\<close>

theorem forward_inference_decodes_mean:
  assumes "\<not> training self" and "forward self rng x nl = Inr (y, self')"
  shows "\<exists>m sd. mu self' = Some m \<and> std self' = Some sd
           \<and> reparametrize self rng m sd = Inr m
           \<and> latent self' = Some m
           \<and> encode self x = Inr m
           \<and> decoder self m nl = Inr y
           \<and> forward self rng' x nl = Inr (y, self')"
proof -
  from assms(2) obtain feat m lv z where
    enc: "encoder self x = Inr feat" and
    m: "Linear_forward (mu_net self) (relu feat) = Inr m" and
    lv: "Linear_forward (logvar_net self) (relu feat) = Inr lv" and
    z: "reparametrize self rng m (exp_inplace lv) = Inr z" and
    dec: "decoder self z nl = Inr y" and
    self': "self' = self\<lparr>mu := Some m, std := Some (exp_inplace lv), latent := Some z\<rparr>"
    by (rule forward_InrD)
  from z assms(1) have zm: "z = m" unfolding reparametrize_def by simp
  have noise_free: "reparametrize self rng' m (exp_inplace lv) = Inr m"
    using assms(1) unfolding reparametrize_def by simp
  have "forward self rng' x nl = Inr (y, self')"
    unfolding forward_def using enc m lv noise_free dec self' zm by simp
  moreover have "encode self x = Inr m"
    unfolding encode_def using enc m by simp
  ultimately show ?thesis
    using z dec self' zm by auto
qed

theorem forward_inference_decodes_mean_witness:
  "\<not> training (ex_net False 0)
   \<and> forward (ex_net False 0) ex_noise [[-1, 2], [3, 1]] None =
       Inr ([[2, 2], [4, 4]],
            (ex_net False 0)\<lparr>mu := Some [[2], [4]], std := Some [[1], [1]],
                              latent := Some [[2], [4]]\<rparr>)
   \<and> encode (ex_net False 0) [[-1, 2], [3, 1]] = Inr [[2], [4]]
   \<and> decoder (ex_net False 0) [[2], [4]] None = Inr [[2, 2], [4, 4]]"
proof -
  have t: "\<not> training (ex_net False 0)" by (simp add: ex_defs)
  note h = ex_forward_eval
  from forward_inference_decodes_mean [OF t h, of ex_noise] obtain m where
    "Some [[2], [4]] = Some m"
    "encode (ex_net False 0) [[-1, 2], [3, 1]] = Inr m"
    "decoder (ex_net False 0) m None = Inr [[2, 2], [4, 4]]"
    by auto
  with t h show ?thesis by simp
qed

text \<open>
  C7. For a network built with the sizes \<open>(dim_out, dim_z)\<close>, in either mode, the
  forward pass gets two tensors from the encoder features, one row per row of the
  features and every row of length \<open>dim_z\<close>. Entry \<open>j\<close> of a row is the bias \<open>j\<close> plus
  the sum over the \<open>dim_out\<close> features, each first cut off below at zero, times the
  weight \<open>(j, i)\<close>: with the weights of the mean head this is the mean, recorded as
  \<open>mu\<close> (and the value of \<open>encode\<close>, which returns the mean alone), and with the
  weights of the log-variance head it is the log-variance preactivation, whose
  exponential is recorded as \<open>std\<close>.
\<close>

theorem latent_head_two_vectors:
  assumes "VAENetwork_init accepts init_mu init_logvar enc dec dim_out dim_z = Inr net"
    and "forward (net\<lparr>training := tr\<rparr>) rng x nl = Inr (y, net')"
  shows "\<exists>feat m lv.
           enc x = Inr feat
         \<and> m = map (\<lambda>row. map (\<lambda>j. (\<Sum>i\<leftarrow>[0..<nat dim_out]. max 0 (row ! i) * fst init_mu j i)
                                      + snd init_mu j) [0..<nat dim_z]) feat
         \<and> lv = map (\<lambda>row. map (\<lambda>j. (\<Sum>i\<leftarrow>[0..<nat dim_out]. max 0 (row ! i) * fst init_logvar j i)
                                       + snd init_logvar j) [0..<nat dim_z]) feat
         \<and> encode (net\<lparr>training := tr\<rparr>) x = Inr m
         \<and> mu net' = Some m \<and> std net' = Some (map (map exp) lv)
         \<and> length m = length feat \<and> length lv = length feat
         \<and> (\<forall>row\<in>set m. int (length row) = dim_z)
         \<and> (\<forall>row\<in>set lv. int (length row) = dim_z)"
proof -
  from assms(2) obtain feat m lv z where
    enc: "encoder (net\<lparr>training := tr\<rparr>) x = Inr feat" and
    m: "Linear_forward (mu_net (net\<lparr>training := tr\<rparr>)) (relu feat) = Inr m" and
    lv: "Linear_forward (logvar_net (net\<lparr>training := tr\<rparr>)) (relu feat) = Inr lv" and
    net': "net' = net\<lparr>training := tr\<rparr>\<lparr>mu := Some m, std := Some (exp_inplace lv), latent := Some z\<rparr>"
    by (rule forward_InrD)
  note heads = VAENetwork_init_heads[OF assms(1)]
  from m have m': "Linear_forward (mu_net net) (relu feat) = Inr m" by simp
  from lv have lv': "Linear_forward (logvar_net net) (relu feat) = Inr lv" by simp
  have m_eq: "m = map (\<lambda>row. map (\<lambda>j. (\<Sum>i\<leftarrow>[0..<nat dim_out]. max 0 (row ! i) * fst init_mu j i)
                                      + snd init_mu j) [0..<nat dim_z]) feat"
    using Linear_forward_relu(1)[OF m'] unfolding heads(1) by simp
  have lv_eq: "lv = map (\<lambda>row. map (\<lambda>j. (\<Sum>i\<leftarrow>[0..<nat dim_out]. max 0 (row ! i) * fst init_logvar j i)
                                       + snd init_logvar j) [0..<nat dim_z]) feat"
    using Linear_forward_relu(1)[OF lv'] unfolding heads(2) by simp
  have "\<forall>row\<in>set m. int (length row) = dim_z"
    unfolding m_eq using heads(3) by auto
  moreover have "\<forall>row\<in>set lv. int (length row) = dim_z"
    unfolding lv_eq using heads(3) by auto
  moreover have "length m = length feat" "length lv = length feat"
    unfolding m_eq lv_eq by simp_all
  moreover have "enc x = Inr feat"
    using enc VAENetwork_init_sizes(5)[OF assms(1)] by simp
  moreover have "encode (net\<lparr>training := tr\<rparr>) x = Inr m"
    unfolding encode_def using enc m by simp
  moreover have "mu net' = Some m" "std net' = Some (map (map exp) lv)"
    unfolding net' exp_inplace_def by simp_all
  ultimately show ?thesis
    using m_eq lv_eq by blast
qed

theorem latent_head_two_vectors_witness:
  "VAENetwork_init ex_accepts ex_init_mu ex_init_logvar Inr ex_decoder 2 2 = Inr ex_built_net
   \<and> forward (ex_built_net\<lparr>training := False\<rparr>) ex_noise [[-1, 2], [3, 1]] None =
       Inr ([[2, 4, 2, 4], [4, 8, 4, 8]],
            ex_built_net\<lparr>training := False, mu := Some [[2, 4], [4, 8]],
                         std := Some [[1, exp 1], [exp 3, exp 4]],
                         latent := Some [[2, 4], [4, 8]]\<rparr>)
   \<and> map (\<lambda>row. map (\<lambda>j. (\<Sum>i\<leftarrow>[0..<nat 2]. max 0 (row ! i) * fst ex_init_mu j i)
                            + snd ex_init_mu j) [0..<nat 2]) [[-1, 2], [3, 1]]
       = [[2, 4], [4, 8]]
   \<and> map (\<lambda>row. map (\<lambda>j. (\<Sum>i\<leftarrow>[0..<nat 2]. max 0 (row ! i) * fst ex_init_logvar j i)
                            + snd ex_init_logvar j) [0..<nat 2]) [[-1, 2], [3, 1]]
       = [[0, 1], [3, 4]]
   \<and> encode (ex_built_net\<lparr>training := False\<rparr>) [[-1, 2], [3, 1]] = Inr [[2, 4], [4, 8]]
   \<and> map (map exp) [[0, 1], [3, 4 :: real]] = [[1, exp 1], [exp 3, exp 4]]"
proof -
  note i = ex_built_net_init
  note h = ex_forward_built
  from latent_head_two_vectors [OF i h] obtain m lv where
    m: "m = map (\<lambda>row. map (\<lambda>j. (\<Sum>i\<leftarrow>[0..<nat 2]. max 0 (row ! i) * fst ex_init_mu j i)
                            + snd ex_init_mu j) [0..<nat 2]) [[-1, 2], [3, 1]]" and
    lv: "lv = map (\<lambda>row. map (\<lambda>j. (\<Sum>i\<leftarrow>[0..<nat 2]. max 0 (row ! i) * fst ex_init_logvar j i)
                            + snd ex_init_logvar j) [0..<nat 2]) [[-1, 2], [3, 1]]" and
    e: "encode (ex_built_net\<lparr>training := False\<rparr>) [[-1, 2], [3, 1]] = Inr m" and
    mu: "Some [[2, 4], [4, 8]] = Some m" and
    sd: "Some [[1, exp 1], [exp 3, exp 4]] = Some (map (map exp) lv)"
    by auto
  have lv_val: "map (\<lambda>row. map (\<lambda>j. (\<Sum>i\<leftarrow>[0..<nat 2]. max 0 (row ! i) * fst ex_init_logvar j i)
                            + snd ex_init_logvar j) [0..<nat 2]) [[-1, 2], [3, 1]]
       = [[0, 1], [3, 4 :: real]]"
    by (simp add: ex_init_logvar_def upt_rec)
  from mu have m_val: "m = [[2, 4], [4, 8]]" by simp
  show ?thesis
    using i h m e lv_val unfolding m_val by simp
qed


section \<open>The training routine\<close>

text \<open>
  C2. The KL term that the routine reports is the mean, over the batch elements, of
  \<open>0.5\<close> times the sum over the latent dimensions of
  \<open>std\<^sup>2 + mean\<^sup>2 - 2 * ln std - 1\<close>, on the mean and the standard deviation that the
  forward pass of this call recorded.
\<close>

theorem routine_kl_term:
  assumes "routine ms_ssim rng self inputs targets Z vae_criterion beta_kld = Inr self'"
  shows "\<exists>vae outputs vae' m sd.
           nets_vae self = Some vae
         \<and> forward vae rng inputs None = Inr (outputs, vae')
         \<and> nets_vae self' = Some vae'
         \<and> mu vae' = Some m \<and> std vae' = Some sd
         \<and> results self' ''KL_divergence''
             = Some ((\<Sum>(mrow, srow)\<leftarrow>zip m sd.
                        0.5 * (\<Sum>(a, s)\<leftarrow>zip mrow srow. s\<^sup>2 + a\<^sup>2 - 2 * ln s - 1))
                     / real (length m))"
proof -
  from assms obtain vae outputs vae' m sd k r v where
    "nets_vae self = Some vae" "forward vae rng inputs None = Inr (outputs, vae')"
    "mu vae' = Some m" "std vae' = Some sd" and k: "kl m sd = Inr k" and
    self': "self' = self\<lparr>nets_vae := Some vae',
        losses := (losses self)(''vae'' \<mapsto> r + (case beta_kld of None \<Rightarrow> 1 | Some b \<Rightarrow> b) * k),
        results := (results self)(''KL_divergence'' \<mapsto> k, ''ms_ssim'' \<mapsto> v)\<rparr>"
    by (rule routine_InrD)
  moreover have "k = (\<Sum>(mrow, srow)\<leftarrow>zip m sd.
                        0.5 * (\<Sum>(a, s)\<leftarrow>zip mrow srow. s\<^sup>2 + a\<^sup>2 - 2 * ln s - 1))
                     / real (length m)"
    using kl_InrD(4)[OF k] unfolding half_mean_rows .
  moreover have "results self' ''KL_divergence'' = Some k" "nets_vae self' = Some vae'"
    unfolding self' by simp_all
  ultimately show ?thesis by blast
qed

theorem routine_kl_term_witness:
  "routine ex_ms_ssim ex_noise (ex_plugin False) [[-1, 2], [3, 1]] () () None None =
     Inr ((ex_plugin False)\<lparr>
       nets_vae := Some ((ex_net False 0)\<lparr>mu := Some [[2], [4]], std := Some [[1], [1]],
                                           latent := Some [[2], [4]]\<rparr>),
       losses := [''vae'' \<mapsto> 29 / 2],
       results := [''KL_divergence'' \<mapsto> 5, ''ms_ssim'' \<mapsto> 1 / 4]\<rparr>)
   \<and> (5 :: real) = (\<Sum>(mrow, srow)\<leftarrow>zip [[2], [4]] [[1], [1]].
                        0.5 * (\<Sum>(a, s)\<leftarrow>zip mrow srow. s\<^sup>2 + a\<^sup>2 - 2 * ln s - 1))
                     / real (length [[2], [4 :: real]])"
proof -
  note h = ex_routine
  from routine_kl_term [OF h] obtain vae' m sd where
    "(ex_net False 0)\<lparr>mu := Some [[2], [4]], std := Some [[1], [1]],
                      latent := Some [[2], [4]]\<rparr> = vae'"
    "mu vae' = Some m" "std vae' = Some sd"
    "(5 :: real) = (\<Sum>(mrow, srow)\<leftarrow>zip m sd.
                        0.5 * (\<Sum>(a, s)\<leftarrow>zip mrow srow. s\<^sup>2 + a\<^sup>2 - 2 * ln s - 1))
                     / real (length m)"
    by auto
  then have "(5 :: real) = (\<Sum>(mrow, srow)\<leftarrow>zip [[2], [4]] [[1], [1]].
                        0.5 * (\<Sum>(a, s)\<leftarrow>zip mrow srow. s\<^sup>2 + a\<^sup>2 - 2 * ln s - 1))
                     / real (length [[2], [4 :: real]])"
    by auto
  with h show ?thesis by blast
qed

text \<open>
  C3. The loss that the routine stores is the reconstruction term (the criterion in
  summed mode over the batch size) plus \<open>beta_kld\<close> times the KL term, for every
  \<open>beta_kld\<close>, so for the non-negative ones; leaving \<open>beta_kld\<close> out is the same as
  passing \<open>1\<close>.
\<close>

theorem routine_loss_is_elbo:
  assumes "routine ms_ssim rng self inputs targets Z vae_criterion beta_kld = Inr self'"
  shows "\<exists>vae outputs vae' s m sd k.
           nets_vae self = Some vae
         \<and> forward vae rng inputs None = Inr (outputs, vae')
         \<and> (case vae_criterion of None \<Rightarrow> mse_loss | Some c \<Rightarrow> c) outputs inputs False = Inr s
         \<and> mu vae' = Some m \<and> std vae' = Some sd \<and> kl m sd = Inr k
         \<and> losses self' ''vae''
             = Some (s / real (length inputs) + (case beta_kld of None \<Rightarrow> 1 | Some b \<Rightarrow> b) * k)
         \<and> routine ms_ssim rng self inputs targets Z vae_criterion None
             = routine ms_ssim rng self inputs targets Z vae_criterion (Some 1)"
proof -
  from assms obtain vae outputs vae' s r m sd k v where
    "nets_vae self = Some vae" "forward vae rng inputs None = Inr (outputs, vae')"
    "(case vae_criterion of None \<Rightarrow> mse_loss | Some c \<Rightarrow> c) outputs inputs False = Inr s"
    "mu vae' = Some m" "std vae' = Some sd" "kl m sd = Inr k" and
    r: "div_size s (length inputs) = Inr r" and
    self': "self' = self\<lparr>nets_vae := Some vae',
        losses := (losses self)(''vae'' \<mapsto> r + (case beta_kld of None \<Rightarrow> 1 | Some b \<Rightarrow> b) * k),
        results := (results self)(''KL_divergence'' \<mapsto> k, ''ms_ssim'' \<mapsto> v)\<rparr>"
    by (rule routine_InrD)
  moreover from r have "r = s / real (length inputs)"
    unfolding div_size_Inr by simp
  moreover have "routine ms_ssim rng self inputs targets Z vae_criterion None
             = routine ms_ssim rng self inputs targets Z vae_criterion (Some 1)"
    unfolding routine_def by (simp split: option.splits sum.splits prod.splits)
  ultimately show ?thesis
    unfolding self' by auto
qed

theorem routine_loss_is_elbo_witness:
  "(0 :: real) \<le> 2
   \<and> routine ex_ms_ssim ex_noise (ex_plugin True) [[-1, 2], [3, 1]] () () None (Some 2) =
     Inr ((ex_plugin True)\<lparr>
       nets_vae := Some ((ex_net True 0)\<lparr>mu := Some [[2], [4]], std := Some [[1], [1]],
                                          latent := Some [[3], [5]]\<rparr>),
       losses := [''vae'' \<mapsto> 57 / 2],
       results := [''KL_divergence'' \<mapsto> 5, ''ms_ssim'' \<mapsto> 1 / 4]\<rparr>)
   \<and> mse_loss [[3, 3], [5, 5]] [[-1, 2], [3, 1]] False = Inr 37
   \<and> kl [[2], [4]] [[1], [1]] = Inr 5
   \<and> (57 / 2 :: real) = 37 / real (length [[-1, 2], [3, 1 :: real]]) + 2 * 5"
proof -
  note h = ex_routine_train
  from routine_loss_is_elbo [OF h] ex_forward_noisy obtain s k where
    s: "mse_loss [[3, 3], [5, 5]] [[-1, 2], [3, 1]] False = Inr s" and
    k: "kl [[2], [4]] [[1], [1]] = Inr k" and
    l: "(57 / 2 :: real) = s / real (length [[-1, 2], [3, 1 :: real]]) + 2 * k"
    by (auto simp: ex_plugin_def)
  from s ex_mse_noisy have "s = 37" by simp
  moreover from k ex_kl have "k = 5" by simp
  ultimately have "(57 / 2 :: real) = 37 / real (length [[-1, 2], [3, 1 :: real]]) + 2 * 5"
    using l by (simp only:)
  then show ?thesis
    using h ex_mse_noisy ex_kl by (simp only: simp_thms order.refl zero_le_numeral)
qed

text \<open>
  C5. The reconstruction term, which is the stored loss without the weighted KL term,
  is the criterion applied to the reconstruction and the input with \<open>size_average\<close>
  off, divided by the batch size (which is then not zero). With the criterion left
  out it is the mean squared error, whose summed mode is the sum of the squared
  differences over all entries of the batch.
\<close>

theorem routine_reconstruction_term:
  assumes "routine ms_ssim rng self inputs targets Z vae_criterion beta_kld = Inr self'"
  shows "\<exists>vae outputs vae' s k.
           nets_vae self = Some vae
         \<and> forward vae rng inputs None = Inr (outputs, vae')
         \<and> (case vae_criterion of None \<Rightarrow> mse_loss | Some c \<Rightarrow> c) outputs inputs False = Inr s
         \<and> 0 < length inputs
         \<and> results self' ''KL_divergence'' = Some k
         \<and> losses self' ''vae''
             = Some (s / real (length inputs) + (case beta_kld of None \<Rightarrow> 1 | Some b \<Rightarrow> b) * k)
         \<and> (vae_criterion = None \<longrightarrow>
               map length outputs = map length inputs
             \<and> s = (\<Sum>(orow, irow)\<leftarrow>zip outputs inputs. \<Sum>(a, b)\<leftarrow>zip orow irow. (a - b)\<^sup>2))"
proof -
  from assms obtain vae outputs vae' s r m sd k v where
    "nets_vae self = Some vae" "forward vae rng inputs None = Inr (outputs, vae')" and
    s: "(case vae_criterion of None \<Rightarrow> mse_loss | Some c \<Rightarrow> c) outputs inputs False = Inr s" and
    r: "div_size s (length inputs) = Inr r" and "mu vae' = Some m" "std vae' = Some sd" and
    self': "self' = self\<lparr>nets_vae := Some vae',
        losses := (losses self)(''vae'' \<mapsto> r + (case beta_kld of None \<Rightarrow> 1 | Some b \<Rightarrow> b) * k),
        results := (results self)(''KL_divergence'' \<mapsto> k, ''ms_ssim'' \<mapsto> v)\<rparr>"
    by (rule routine_InrD)
  moreover from r have "r = s / real (length inputs)" "0 < length inputs"
    unfolding div_size_Inr by simp_all
  moreover have "vae_criterion = None \<longrightarrow>
               map length outputs = map length inputs
             \<and> s = (\<Sum>(orow, irow)\<leftarrow>zip outputs inputs. \<Sum>(a, b)\<leftarrow>zip orow irow. (a - b)\<^sup>2)"
    using s mse_loss_sum[of outputs inputs s] by auto
  ultimately show ?thesis
    unfolding self' by auto
qed

theorem routine_reconstruction_term_witness:
  "routine ex_ms_ssim ex_noise (ex_plugin False) [[-1, 2], [3, 1]] () () None None =
     Inr ((ex_plugin False)\<lparr>
       nets_vae := Some ((ex_net False 0)\<lparr>mu := Some [[2], [4]], std := Some [[1], [1]],
                                           latent := Some [[2], [4]]\<rparr>),
       losses := [''vae'' \<mapsto> 29 / 2],
       results := [''KL_divergence'' \<mapsto> 5, ''ms_ssim'' \<mapsto> 1 / 4]\<rparr>)
   \<and> mse_loss [[2, 2], [4, 4]] [[-1, 2], [3, 1]] False = Inr 19
   \<and> (19 :: real) = (\<Sum>(orow, irow)\<leftarrow>zip [[2, 2], [4, 4]] [[-1, 2], [3, 1]].
                         \<Sum>(a, b)\<leftarrow>zip orow irow. (a - b)\<^sup>2)
   \<and> (29 / 2 :: real) = 19 / real (length [[-1, 2], [3, 1 :: real]]) + 1 * 5"
proof -
  note h = ex_routine
  from routine_reconstruction_term [OF h] ex_forward_eval obtain s where
    "mse_loss [[2, 2], [4, 4]] [[-1, 2], [3, 1]] False = Inr s"
    "(29 / 2 :: real) = s / real (length [[-1, 2], [3, 1 :: real]]) + 1 * 5"
    "s = (\<Sum>(orow, irow)\<leftarrow>zip [[2, 2], [4, 4]] [[-1, 2], [3, 1]].
            \<Sum>(a, b)\<leftarrow>zip orow irow. (a - b)\<^sup>2)"
    by (auto simp: ex_plugin_def)
  moreover from this have "s = 19" by simp
  ultimately show ?thesis using h by auto
qed

text \<open>
  C9, as first stated: the routine emits exactly three metrics, the reconstruction
  loss among them. On the example it emits two, the KL term \<open>5\<close> and the similarity
  \<open>1 / 4\<close>; the reconstruction term, \<open>19\<close> over the batch size \<open>2\<close>, is not among
  them.
\<close>

theorem routine_metrics_counterexample:
  "\<not> isl (routine ex_ms_ssim ex_noise (ex_plugin False) [[-1, 2], [3, 1]] () () None None)
   \<and> results (projr (routine ex_ms_ssim ex_noise (ex_plugin False) [[-1, 2], [3, 1]] () () None None))
       = [''KL_divergence'' \<mapsto> 5, ''ms_ssim'' \<mapsto> 1 / 4]
   \<and> card (dom (results
        (projr (routine ex_ms_ssim ex_noise (ex_plugin False) [[-1, 2], [3, 1]] () () None None)))) = 2
   \<and> mse_loss [[2, 2], [4, 4]] [[-1, 2], [3, 1]] False = Inr 19
   \<and> 19 / 2 \<notin> ran (results
        (projr (routine ex_ms_ssim ex_noise (ex_plugin False) [[-1, 2], [3, 1]] () () None None)))"
proof -
  have res: "results (projr (routine ex_ms_ssim ex_noise (ex_plugin False) [[-1, 2], [3, 1]] () () None None))
       = [''KL_divergence'' \<mapsto> 5, ''ms_ssim'' \<mapsto> 1 / 4]"
    unfolding ex_routine by simp
  have ok: "\<not> isl (routine ex_ms_ssim ex_noise (ex_plugin False) [[-1, 2], [3, 1]] () () None None)"
    unfolding ex_routine by simp
  show ?thesis
    unfolding res using ok ex_mse_eval ex_results_ran ex_results_dom ex_results_card by simp
qed

text \<open>
  C9, amended. The routine writes exactly two metrics into \<open>results\<close>:
  \<open>KL_divergence\<close>, the KL term, and \<open>ms_ssim\<close>, the external similarity function
  applied to the input and the reconstruction; every other entry of \<open>results\<close> is
  left as it was. The reconstruction term is part of the loss only.
\<close>

theorem routine_metrics:
  assumes "routine ms_ssim rng self inputs targets Z vae_criterion beta_kld = Inr self'"
  shows "\<exists>vae outputs vae' m sd k v.
           nets_vae self = Some vae
         \<and> forward vae rng inputs None = Inr (outputs, vae')
         \<and> mu vae' = Some m \<and> std vae' = Some sd \<and> kl m sd = Inr k
         \<and> ms_ssim inputs outputs = Inr v
         \<and> results self' = (results self)(''KL_divergence'' \<mapsto> k, ''ms_ssim'' \<mapsto> v)
         \<and> dom (results self') = dom (results self) \<union> {''KL_divergence'', ''ms_ssim''}"
proof -
  from assms obtain vae outputs vae' s r m sd k v where
    "nets_vae self = Some vae" "forward vae rng inputs None = Inr (outputs, vae')"
    "(case vae_criterion of None \<Rightarrow> mse_loss | Some c \<Rightarrow> c) outputs inputs False = Inr s"
    "div_size s (length inputs) = Inr r"
    "mu vae' = Some m" "std vae' = Some sd" "kl m sd = Inr k" "ms_ssim inputs outputs = Inr v" and
    self': "self' = self\<lparr>nets_vae := Some vae',
        losses := (losses self)(''vae'' \<mapsto> r + (case beta_kld of None \<Rightarrow> 1 | Some b \<Rightarrow> b) * k),
        results := (results self)(''KL_divergence'' \<mapsto> k, ''ms_ssim'' \<mapsto> v)\<rparr>"
    by (rule routine_InrD)
  moreover have "results self' = (results self)(''KL_divergence'' \<mapsto> k, ''ms_ssim'' \<mapsto> v)"
    unfolding self' by simp
  moreover from this have "dom (results self') = dom (results self) \<union> {''KL_divergence'', ''ms_ssim''}"
    by auto
  ultimately show ?thesis by blast
qed

theorem routine_metrics_witness:
  "routine ex_ms_ssim ex_noise (ex_plugin False) [[-1, 2], [3, 1]] () () None None =
     Inr ((ex_plugin False)\<lparr>
       nets_vae := Some ((ex_net False 0)\<lparr>mu := Some [[2], [4]], std := Some [[1], [1]],
                                           latent := Some [[2], [4]]\<rparr>),
       losses := [''vae'' \<mapsto> 29 / 2],
       results := [''KL_divergence'' \<mapsto> 5, ''ms_ssim'' \<mapsto> 1 / 4]\<rparr>)
   \<and> kl [[2], [4]] [[1], [1]] = Inr 5
   \<and> ex_ms_ssim [[-1, 2], [3, 1]] [[2, 2], [4, 4]] = Inr (1 / 4)
   \<and> dom [''KL_divergence'' \<mapsto> 5 :: real, ''ms_ssim'' \<mapsto> 1 / 4] = {''KL_divergence'', ''ms_ssim''}"
proof -
  note h = ex_routine
  from routine_metrics [OF h] ex_forward_eval obtain k v where
    "kl [[2], [4]] [[1], [1]] = Inr k" "ex_ms_ssim [[-1, 2], [3, 1]] [[2, 2], [4, 4]] = Inr v"
    "[''KL_divergence'' \<mapsto> 5 :: real, ''ms_ssim'' \<mapsto> 1 / 4]
       = Map.empty(''KL_divergence'' \<mapsto> k, ''ms_ssim'' \<mapsto> v)"
    "dom [''KL_divergence'' \<mapsto> 5 :: real, ''ms_ssim'' \<mapsto> 1 / 4]
       = dom (Map.empty :: string \<rightharpoonup> real) \<union> {''KL_divergence'', ''ms_ssim''}"
    by (auto simp: ex_plugin_def)
  moreover have "ex_ms_ssim [[-1, 2], [3, 1]] [[2, 2], [4, 4]] = Inr (1 / 4)"
    by (simp add: ex_ms_ssim_def)
  ultimately show ?thesis using h ex_kl by simp
qed

section \<open>Building the model\<close>

text \<open>
  C8, as first stated: a missing dimension makes \<open>build\<close> raise. Called with neither
  dimension, \<open>build\<close> succeeds and both heads have the sizes \<open>(1024, 64)\<close>.
\<close>

theorem build_missing_dims_counterexample:
  "\<not> isl (ex_build None None)
   \<and> map_option (\<lambda>vae. (in_features (mu_net vae), out_features (mu_net vae),
                         in_features (logvar_net vae), out_features (logvar_net vae)))
        (nets_vae (projr (ex_build None None))) = Some (1024, 64, 1024, 64)"
  by (simp add: ex_build_def build_def VAENetwork_init_def nn_Linear_def ex_accepts_def)

text \<open>
  C8, amended. A dimension that is left out takes its default, \<open>64\<close> for \<open>dim_z\<close>
  and \<open>1024\<close> for \<open>dim_encoder_out\<close>. \<open>build\<close> checks neither dimension itself:
  when the encoder build, the decoder build and \<open>add_noise\<close> succeed, it fails exactly
  when the constructor of the linear layers refuses the sizes, with that constructor's
  error, and otherwise it stores a network whose two heads have these sizes.
\<close>

theorem build_defaults_no_validation:
  fixes dim_z dim_encoder_out :: "int option"
  defines "dz \<equiv> (case dim_z of None \<Rightarrow> 64 | Some d \<Rightarrow> d)"
    and "de \<equiv> (case dim_encoder_out of None \<Rightarrow> 1024 | Some d \<Rightarrow> d)"
  assumes "encoder_build = Inr enc" and "decoder_build dz = Inr dec" and "add_noise dz = Inr u"
  shows "build encoder_build decoder_build add_noise accepts init_mu init_logvar self dim_z
           dim_encoder_out
         = (if 0 \<le> de \<and> 0 \<le> dz \<and> accepts de dz
            then Inr (self\<lparr>nets_vae := Some
                   \<lparr>encoder = enc,
                    mu_net = \<lparr>in_features = nat de, out_features = nat dz,
                              weight = fst init_mu, bias = snd init_mu\<rparr>,
                    logvar_net = \<lparr>in_features = nat de, out_features = nat dz,
                                  weight = fst init_logvar, bias = snd init_logvar\<rparr>,
                    decoder = dec, training = True, mu = None, logvar = None, std = None,
                    latent = None\<rparr>\<rparr>)
            else Inl RuntimeError)"
  using assms unfolding build_def VAENetwork_init_def nn_Linear_def by simp

theorem build_defaults_no_validation_witness:
  "ex_build None (Some 3)
     = Inr (ex_unbuilt\<lparr>nets_vae := Some
             \<lparr>encoder = Inr,
              mu_net = \<lparr>in_features = 3, out_features = 64,
                        weight = fst ex_init, bias = snd ex_init\<rparr>,
              logvar_net = \<lparr>in_features = 3, out_features = 64,
                            weight = fst ex_init, bias = snd ex_init\<rparr>,
              decoder = ex_decoder, training = True, mu = None, logvar = None, std = None,
              latent = None\<rparr>\<rparr>)
   \<and> ex_build (Some (- 1)) (Some 3) = Inl RuntimeError"
  unfolding ex_build_def
  using
    build_defaults_no_validation [where encoder_build = "Inr Inr"
      and decoder_build = "\<lambda>d. Inr ex_decoder" and add_noise = "\<lambda>d. Inr ()"
      and dim_z = None and dim_encoder_out = "Some 3" and accepts = ex_accepts
      and init_mu = ex_init and init_logvar = ex_init and self = ex_unbuilt
      and enc = Inr and dec = ex_decoder and u = "()"]
    build_defaults_no_validation [where encoder_build = "Inr Inr"
      and decoder_build = "\<lambda>d. Inr ex_decoder" and add_noise = "\<lambda>d. Inr ()"
      and dim_z = "Some (- 1)" and dim_encoder_out = "Some 3" and accepts = ex_accepts
      and init_mu = ex_init and init_logvar = ex_init and self = ex_unbuilt
      and enc = Inr and dec = ex_decoder and u = "()"]
  by (simp add: ex_accepts_def)

end
